theory Spec2Isabelle
  imports
    Main
    "HOL-Library.Char_ord"
    "HOL-Library.List_Lexorder"
    "HOL-Library.Product_Lexorder"
    "HOL-Library.Sublist"
    "HOL-Library.AList"
begin

unbundle bit_operations_syntax

section \<open>The repository as the updater sees it\<close>

text \<open>
  The updater (\<^verbatim>\<open>src/lib/update_comfyui.py\<close>) drives a git repository through the
  pygit2 binding. The functions \<^verbatim>\<open>pull\<close>, \<^verbatim>\<open>find_latest_stable_tag\<close> and
  \<^verbatim>\<open>main\<close> are embedded below from the source. The repository itself is the external
  backend: its state is a record, its operations are functions on that record, and
  every result that depends on file contents, on the network or on the clock is read
  from a \<open>backend\<close> parameter.

  Object ids are the strings that \<^verbatim>\<open>str(oid)\<close> prints. Strings are byte strings; the
  reference names that occur are ASCII.
\<close>

type_synonym oid = string
type_synonym tree = string

record signature =
  sig_name :: string
  sig_email :: string

record commit =
  c_tree :: tree
  c_parents :: "oid list"
  c_message :: string
  c_author :: signature
  c_committer :: signature

text \<open>
  HEAD is either attached to a local branch, given by its short name (git attaches HEAD
  to branches only), or detached at a commit.
\<close>

datatype head = Branch string | Detached oid

record index_entry =
  path :: string

text \<open>A conflict of the index is the triple (ancestor, ours, theirs); a side may be absent.\<close>

type_synonym conflict = "index_entry option \<times> index_entry option \<times> index_entry option"

record index =
  ix_tree :: tree
  ix_conflicts :: "conflict list"

record remote =
  rm_name :: string
  rm_url :: string

record repo =
  head :: head
  refs :: "(string \<times> oid) list"
  commits :: "(oid \<times> commit) list"
  index :: index
  index_file :: index
  workdir :: tree
  merge_heads :: "oid list"
  remotes :: "remote list"
  default_signature :: "signature option"

text \<open>
  The exceptions that reach the updater. \<open>KeyError\<close> is what pygit2 raises for a missing
  reference and for a stash with nothing to save; \<open>BackendError\<close> stands for every other
  exception of the backend. All of them are subclasses of Python's \<^verbatim>\<open>Exception\<close>.
\<close>

datatype exn = KeyError | RuntimeError string | BackendError string

section \<open>Strings and integers of the host language\<close>

text \<open>\<^verbatim>\<open>s.startswith(p)\<close>\<close>

definition startswith :: "string \<Rightarrow> string \<Rightarrow> bool" where
  "startswith s p = prefix p s"

text \<open>\<^verbatim>\<open>s.split(".")\<close>: the pieces between the dots; never the empty list.\<close>

fun split_dot :: "string \<Rightarrow> string list" where
  "split_dot [] = [[]]"
| "split_dot (c # cs) =
     (if c = CHR ''.'' then [] # split_dot cs
      else (case split_dot cs of p # ps \<Rightarrow> (c # p) # ps | [] \<Rightarrow> [[c]]))"

text \<open>
  \<^verbatim>\<open>int(s)\<close> on a string, base ten: blanks around the number are skipped, one sign is
  allowed, the digits may be grouped by single underscores, and anything else is a
  \<^verbatim>\<open>ValueError\<close> (here \<open>None\<close>). Only ASCII digits and ASCII blanks are recognised.
\<close>

definition is_space :: "char \<Rightarrow> bool" where
  "is_space c = (let n = (of_char c :: nat) in (9 \<le> n \<and> n \<le> 13) \<or> (28 \<le> n \<and> n \<le> 32))"

definition is_digit :: "char \<Rightarrow> bool" where
  "is_digit c = (let n = (of_char c :: nat) in 48 \<le> n \<and> n \<le> 57)"

definition digit_val :: "char \<Rightarrow> int" where
  "digit_val c = int (of_char c) - 48"

fun has_double_underscore :: "string \<Rightarrow> bool" where
  "has_double_underscore (a # b # cs) =
     ((a = CHR ''_'' \<and> b = CHR ''_'') \<or> has_double_underscore (b # cs))"
| "has_double_underscore _ = False"

definition py_int :: "string \<Rightarrow> int option" where
  "py_int s =
     (let t = dropWhile is_space s;
          neg = (take 1 t = ''-'');
          u = (if take 1 t = ''-'' \<or> take 1 t = ''+'' then drop 1 t else t);
          body = takeWhile (\<lambda>c. is_digit c \<or> c = CHR ''_'') u;
          rest = dropWhile (\<lambda>c. is_digit c \<or> c = CHR ''_'') u
      in if body = [] \<or> hd body = CHR ''_'' \<or> last body = CHR ''_''
            \<or> has_double_underscore body \<or> \<not> list_all is_space rest
         then None
         else Some ((if neg then - 1 else 1)
                * foldl (\<lambda>acc c. 10 * acc + digit_val c) 0 (filter is_digit body)))"

text \<open>\<^verbatim>\<open>tuple(map(int, pieces))\<close>: the first piece that does not parse raises.\<close>

fun map_int :: "string list \<Rightarrow> int list option" where
  "map_int [] = Some []"
| "map_int (p # ps) =
     (case py_int p of
        None \<Rightarrow> None
      | Some i \<Rightarrow> (case map_int ps of None \<Rightarrow> None | Some is \<Rightarrow> Some (i # is)))"

section \<open>Selecting the latest stable tag\<close>

text \<open>\<^verbatim>\<open>repo.references\<close>: the names of all references.\<close>

definition references :: "repo \<Rightarrow> string list" where
  "references r = map fst (refs r)"

text \<open>
  The body of the loop of \<^verbatim>\<open>find_latest_stable_tag\<close> for one reference name: the entry
  appended to \<^verbatim>\<open>versions\<close>, or nothing when the name has no version.
\<close>

definition tag_version :: "string \<Rightarrow> (int list \<times> string) option" where
  "tag_version ref_name =
     (let prefix = ''refs/tags/v'' in
      if startswith ref_name prefix
      then (case map_int (split_dot (drop (length prefix) ref_name)) of
              None \<Rightarrow> None
            | Some parts \<Rightarrow> Some (parts, ref_name))
      else None)"

text \<open>
  Tuples of integers compare as Python compares them: by the first component that
  differs, a proper prefix being smaller; pairs compare by the tuple first and the name
  second. \<^verbatim>\<open>versions.sort()\<close> sorts in that order and \<^verbatim>\<open>versions[-1]\<close> is the last.
\<close>

definition find_latest_stable_tag :: "repo \<Rightarrow> string option" where
  "find_latest_stable_tag r =
     (let versions = List.map_filter tag_version (references r);
          versions = sort versions
      in if versions \<noteq> [] then Some (snd (last versions)) else None)"

section \<open>The backend: pygit2 on a repository\<close>

text \<open>
  Everything in this section stands for the pygit2 library, which is not part of the
  updater. Each operation changes the repository record the way the library documents
  it; what it would compute from file contents, the network or the clock is a field of
  \<open>backend\<close>. An operation that raises leaves the record as it was.
\<close>

record merge_out =
  mo_tree :: tree
  mo_conflicts :: "conflict list"
  mo_workdir :: tree

record stash_out =
  so_oid :: oid
  so_commits :: "(oid \<times> commit) list"

record fetched =
  f_refs :: "(string \<times> oid) list"
  f_commits :: "(oid \<times> commit) list"

text \<open>
  Modelled from the spec: the backend capability interface of section 6 (resolve and
  repoint references, merge analysis, checkout, three-way merge, index, commit, branch,
  snapshot, fetch), which the pygit2 library provides and the source only calls.
  The fields give what those calls compute from outside the record: whether an
  operation fails and with which exception, the analysis bits, the merged tree and its
  conflicts, the references of the remote, the id of a new commit. \<open>today\<close> is the time
  stamp \<^verbatim>\<open>datetime.today().strftime("%Y-%m-%d_%H_%M_%S")\<close>.
\<close>

record backend =
  open_repository :: "string \<Rightarrow> exn + repo"
  today :: string
  merge_analysis :: "repo \<Rightarrow> oid \<Rightarrow> int"
  checkout_blocked :: "repo \<Rightarrow> oid \<Rightarrow> exn option"
  merge_result :: "repo \<Rightarrow> oid \<Rightarrow> exn + merge_out"
  stash_result :: "repo \<Rightarrow> signature \<Rightarrow> exn + stash_out"
  branch_error :: "repo \<Rightarrow> string \<Rightarrow> exn option"
  fetch_result :: "repo \<Rightarrow> remote \<Rightarrow> string list \<Rightarrow> exn + fetched"
  commit_oid :: "commit \<Rightarrow> oid"

text \<open>The bits of the merge analysis.\<close>

definition GIT_MERGE_ANALYSIS_NORMAL :: int where
  "GIT_MERGE_ANALYSIS_NORMAL = 1"

definition GIT_MERGE_ANALYSIS_UP_TO_DATE :: int where
  "GIT_MERGE_ANALYSIS_UP_TO_DATE = 2"

definition GIT_MERGE_ANALYSIS_FASTFORWARD :: int where
  "GIT_MERGE_ANALYSIS_FASTFORWARD = 4"

text \<open>\<^verbatim>\<open>repo.lookup_reference(name).target\<close>; a missing reference is a \<^verbatim>\<open>KeyError\<close>.\<close>

definition lookup_reference :: "repo \<Rightarrow> string \<Rightarrow> exn + oid" where
  "lookup_reference r n =
     (case map_of (refs r) n of None \<Rightarrow> Inl KeyError | Some t \<Rightarrow> Inr t)"

text \<open>\<^verbatim>\<open>repo.lookup_branch(name)\<close>: \<^verbatim>\<open>None\<close> when there is no such local branch.\<close>

definition lookup_branch :: "repo \<Rightarrow> string \<Rightarrow> oid option" where
  "lookup_branch r b = map_of (refs r) (''refs/heads/'' @ b)"

text \<open>\<^verbatim>\<open>reference.set_target(oid)\<close> for the reference of that name.\<close>

definition set_target :: "repo \<Rightarrow> string \<Rightarrow> oid \<Rightarrow> repo" where
  "set_target r n t = r\<lparr>refs := AList.update n t (refs r)\<rparr>"

text \<open>\<^verbatim>\<open>repo.get(oid)\<close>: the commit with its id, \<^verbatim>\<open>None\<close> when the object is missing.\<close>

definition repo_get :: "repo \<Rightarrow> oid \<Rightarrow> (oid \<times> commit) option" where
  "repo_get r t = map_option (Pair t) (map_of (commits r) t)"

text \<open>
  \<^verbatim>\<open>repo.head\<close> is the reference HEAD resolves to: the branch when HEAD is attached
  (an error when that branch does not exist yet), HEAD itself when detached.
\<close>

definition head_target :: "repo \<Rightarrow> exn + oid" where
  "head_target r =
     (case head r of
        Detached t \<Rightarrow> Inr t
      | Branch b \<Rightarrow>
          (case map_of (refs r) (''refs/heads/'' @ b) of
             None \<Rightarrow> Inl (BackendError ''reference not found'')
           | Some t \<Rightarrow> Inr t))"

definition head_set_target :: "repo \<Rightarrow> oid \<Rightarrow> exn + repo" where
  "head_set_target r t =
     (case head r of
        Detached _ \<Rightarrow> Inr (r\<lparr>head := Detached t\<rparr>)
      | Branch b \<Rightarrow>
          (case map_of (refs r) (''refs/heads/'' @ b) of
             None \<Rightarrow> Inl (BackendError ''reference not found'')
           | Some _ \<Rightarrow> Inr (set_target r (''refs/heads/'' @ b) t)))"

definition head_peel :: "repo \<Rightarrow> exn + (oid \<times> commit)" where
  "head_peel r =
     (case head_target r of
        Inl e \<Rightarrow> Inl e
      | Inr t \<Rightarrow>
          (case repo_get r t of
             None \<Rightarrow> Inl (BackendError ''object not found'')
           | Some c \<Rightarrow> Inr c))"

text \<open>
  \<^verbatim>\<open>repo.checkout_tree(commit)\<close> with the default (safe) strategy: the index and the
  working tree become the commit's tree, unless local files block the checkout.
\<close>

definition checkout_tree :: "backend \<Rightarrow> repo \<Rightarrow> (oid \<times> commit) option \<Rightarrow> exn + repo" where
  "checkout_tree be r c =
     (case c of
        None \<Rightarrow> Inl (BackendError ''not an object'')
      | Some (t, cm) \<Rightarrow>
          (case checkout_blocked be r t of
             Some e \<Rightarrow> Inl e
           | None \<Rightarrow>
               Inr (r\<lparr>index := \<lparr>ix_tree = c_tree cm, ix_conflicts = []\<rparr>,
                      index_file := \<lparr>ix_tree = c_tree cm, ix_conflicts = []\<rparr>,
                      workdir := c_tree cm\<rparr>)))"

text \<open>
  \<^verbatim>\<open>repo.create_branch(name, commit)\<close>, also \<^verbatim>\<open>repo.branches.local.create\<close>: without
  force, an existing branch of that name is an error.
\<close>

definition create_branch :: "backend \<Rightarrow> repo \<Rightarrow> string \<Rightarrow> (oid \<times> commit) option \<Rightarrow> exn + repo" where
  "create_branch be r b c =
     (case c of
        None \<Rightarrow> Inl (BackendError ''not a commit'')
      | Some (t, _) \<Rightarrow>
          if map_of (refs r) (''refs/heads/'' @ b) \<noteq> None
          then Inl (BackendError ''reference already exists'')
          else (case branch_error be r b of
                  Some e \<Rightarrow> Inl e
                | None \<Rightarrow> Inr (set_target r (''refs/heads/'' @ b) t)))"

text \<open>
  \<^verbatim>\<open>repo.checkout(refname)\<close>: check out the tree of the reference's commit, then set
  HEAD: attached when the reference is a local branch, detached otherwise.
\<close>

definition set_head :: "repo \<Rightarrow> string \<Rightarrow> oid \<Rightarrow> repo" where
  "set_head r refname t =
     (if startswith refname ''refs/heads/''
      then r\<lparr>head := Branch (drop (length ''refs/heads/'') refname)\<rparr>
      else r\<lparr>head := Detached t\<rparr>)"

definition checkout :: "backend \<Rightarrow> repo \<Rightarrow> string \<Rightarrow> exn + repo" where
  "checkout be r refname =
     (case lookup_reference r refname of
        Inl e \<Rightarrow> Inl e
      | Inr t \<Rightarrow>
          (case repo_get r t of
             None \<Rightarrow> Inl KeyError
           | Some c \<Rightarrow>
               (case checkout_tree be r (Some c) of
                  Inl e \<Rightarrow> Inl e
                | Inr r1 \<Rightarrow> Inr (set_head r1 refname t))))"

text \<open>
  \<^verbatim>\<open>repo.merge(oid)\<close>: the merged entries and the conflicts go to the index, the merged
  files to the working tree, and the merge is recorded as in progress. No commit.
\<close>

definition merge :: "backend \<Rightarrow> repo \<Rightarrow> oid \<Rightarrow> exn + repo" where
  "merge be r t =
     (case merge_result be r t of
        Inl e \<Rightarrow> Inl e
      | Inr m \<Rightarrow>
          Inr (r\<lparr>index := \<lparr>ix_tree = mo_tree m, ix_conflicts = mo_conflicts m\<rparr>,
                 index_file := \<lparr>ix_tree = mo_tree m, ix_conflicts = mo_conflicts m\<rparr>,
                 workdir := mo_workdir m,
                 merge_heads := [t]\<rparr>))"

text \<open>\<^verbatim>\<open>repo.index.conflicts\<close>: \<^verbatim>\<open>None\<close> when the index has no conflict.\<close>

definition index_conflicts :: "repo \<Rightarrow> conflict list option" where
  "index_conflicts r =
     (if ix_conflicts (index r) = [] then None else Some (ix_conflicts (index r)))"

text \<open>\<^verbatim>\<open>repo.index.write_tree()\<close>, called on an index without conflicts.\<close>

definition write_tree :: "repo \<Rightarrow> tree" where
  "write_tree r = ix_tree (index r)"

text \<open>\<^verbatim>\<open>repo.index.read_tree(tree)\<close> and \<^verbatim>\<open>repo.index.write()\<close>.\<close>

definition index_read_tree :: "repo \<Rightarrow> tree \<Rightarrow> repo" where
  "index_read_tree r t = r\<lparr>index := \<lparr>ix_tree = t, ix_conflicts = []\<rparr>\<rparr>"

definition index_write :: "repo \<Rightarrow> repo" where
  "index_write r = r\<lparr>index_file := index r\<rparr>"

text \<open>
  \<^verbatim>\<open>repo.create_commit(ref, author, committer, message, tree, parents)\<close>: one new
  commit object, and the reference (through HEAD when it is \<^verbatim>\<open>"HEAD"\<close>) moved to it.
\<close>

definition create_commit ::
  "backend \<Rightarrow> repo \<Rightarrow> string \<Rightarrow> signature \<Rightarrow> signature \<Rightarrow> string \<Rightarrow> tree \<Rightarrow> oid list
     \<Rightarrow> oid \<times> repo" where
  "create_commit be r update_ref author committer message tr parents =
     (let c = \<lparr>c_tree = tr, c_parents = parents, c_message = message,
               c_author = author, c_committer = committer\<rparr>;
          t = commit_oid be c;
          r1 = r\<lparr>commits := commits r @ [(t, c)]\<rparr>
      in (t,
          if update_ref = ''HEAD''
          then (case head r1 of
                  Detached _ \<Rightarrow> r1\<lparr>head := Detached t\<rparr>
                | Branch b \<Rightarrow> set_target r1 (''refs/heads/'' @ b) t)
          else set_target r1 update_ref t))"

text \<open>\<^verbatim>\<open>repo.state_cleanup()\<close>: no merge is in progress afterwards.\<close>

definition state_cleanup :: "repo \<Rightarrow> repo" where
  "state_cleanup r = r\<lparr>merge_heads := []\<rparr>"

text \<open>
  \<^verbatim>\<open>repo.stash(ident)\<close>: a \<^verbatim>\<open>KeyError\<close> when there is nothing to save; otherwise the
  changes are recorded under \<^verbatim>\<open>refs/stash\<close> and the index and the working tree go back
  to the tree of HEAD.
\<close>

definition stash :: "backend \<Rightarrow> repo \<Rightarrow> signature \<Rightarrow> exn + repo" where
  "stash be r ident =
     (case head_peel r of
        Inl e \<Rightarrow> Inl e
      | Inr (_, hc) \<Rightarrow>
          (case stash_result be r ident of
             Inl e \<Rightarrow> Inl e
           | Inr s \<Rightarrow>
               Inr ((set_target r ''refs/stash'' (so_oid s))
                      \<lparr>commits := commits r @ so_commits s,
                       index := \<lparr>ix_tree = c_tree hc, ix_conflicts = []\<rparr>,
                       index_file := \<lparr>ix_tree = c_tree hc, ix_conflicts = []\<rparr>,
                       workdir := c_tree hc\<rparr>)))"

text \<open>
  \<^verbatim>\<open>remote.fetch(refspecs)\<close>. A refspec \<^verbatim>\<open>+src:dst\<close> maps a reference of the remote to
  a local name; a trailing \<^verbatim>\<open>*\<close> on both sides maps a whole namespace. Every matched
  reference is written (the \<^verbatim>\<open>+\<close> forces it); nothing else is.
\<close>

definition refspec_dst :: "string \<Rightarrow> string \<Rightarrow> string option" where
  "refspec_dst spec n =
     (let s = (if take 1 spec = ''+'' then drop 1 spec else spec);
          src = takeWhile (\<lambda>c. c \<noteq> CHR '':'') s;
          dst = drop (length src + 1) s
      in if src \<noteq> [] \<and> last src = CHR ''*''
         then (if prefix (butlast src) n
               then Some (butlast dst @ drop (length src - 1) n)
               else None)
         else if n = src then Some dst else None)"

definition apply_refspec :: "string \<Rightarrow> (string \<times> oid) list \<Rightarrow> repo \<Rightarrow> repo" where
  "apply_refspec spec rrefs r =
     fold (\<lambda>(n, t) r'. case refspec_dst spec n of None \<Rightarrow> r' | Some d \<Rightarrow> set_target r' d t)
          rrefs r"

definition fetch :: "backend \<Rightarrow> repo \<Rightarrow> remote \<Rightarrow> string list \<Rightarrow> exn + repo" where
  "fetch be r rm refspecs =
     (case fetch_result be r rm refspecs of
        Inl e \<Rightarrow> Inl e
      | Inr f \<Rightarrow>
          Inr (fold (\<lambda>spec r'. apply_refspec spec (f_refs f) r') refspecs
                 (r\<lparr>commits := commits r @ f_commits f\<rparr>)))"

section \<open>Running a step: result, repository, printed lines\<close>

text \<open>
  A step of the updater returns a value or raises, leaves a repository behind and has
  printed some lines; each \<^verbatim>\<open>print\<close> call is one line of the list.
\<close>

type_synonym 'a result = "(exn + 'a) \<times> repo \<times> string list"

definition then_run :: "'a result \<Rightarrow> ('a \<Rightarrow> repo \<Rightarrow> 'b result) \<Rightarrow> 'b result" where
  "then_run m f =
     (case m of
        (Inl e, r, out) \<Rightarrow> (Inl e, r, out)
      | (Inr x, r, out) \<Rightarrow> (case f x r of (y, r', out') \<Rightarrow> (y, r', out @ out')))"

section \<open>pull\<close>

text \<open>\<^verbatim>\<open>next((x for x in conflict if x is not None), None)\<close>\<close>

definition conflict_entry :: "conflict \<Rightarrow> index_entry option" where
  "conflict_entry c =
     (case c of
        (Some x, _, _) \<Rightarrow> Some x
      | (None, Some x, _) \<Rightarrow> Some x
      | (None, None, d) \<Rightarrow> d)"

definition conflict_line :: "conflict \<Rightarrow> string" where
  "conflict_line c =
     ''Conflict in: '' @ (case conflict_entry c of Some entry \<Rightarrow> path entry | None \<Rightarrow> ''unknown'')"

definition pull :: "backend \<Rightarrow> repo \<Rightarrow> string \<Rightarrow> string \<Rightarrow> unit result" where
  "pull be repo remote_name branch =
     (case lookup_reference repo (''refs/remotes/'' @ remote_name @ ''/'' @ branch) of
        Inl e \<Rightarrow> (Inl e, repo, [])
      | Inr remote_id \<Rightarrow>
          let merge_result = merge_analysis be repo remote_id in
          if merge_result AND GIT_MERGE_ANALYSIS_UP_TO_DATE \<noteq> 0 then
            (Inr (), repo, [''Already up to date.''])
          else if merge_result AND GIT_MERGE_ANALYSIS_FASTFORWARD \<noteq> 0 then
            (case checkout_tree be repo (repo_get repo remote_id) of
               Inl e \<Rightarrow> (Inl e, repo, [])
             | Inr r1 \<Rightarrow>
                 (case (case lookup_reference r1 (''refs/heads/'' @ branch) of
                          Inr _ \<Rightarrow> Inr (set_target r1 (''refs/heads/'' @ branch) remote_id)
                        | Inl KeyError \<Rightarrow> create_branch be r1 branch (repo_get r1 remote_id)
                        | Inl e \<Rightarrow> Inl e) of
                    Inl e \<Rightarrow> (Inl e, r1, [])
                  | Inr r2 \<Rightarrow>
                      (case head_set_target r2 remote_id of
                         Inl e \<Rightarrow> (Inl e, r2, [])
                       | Inr r3 \<Rightarrow> (Inr (), r3, []))))
          else if merge_result AND GIT_MERGE_ANALYSIS_NORMAL \<noteq> 0 then
            (case merge be repo remote_id of
               Inl e \<Rightarrow> (Inl e, repo, [])
             | Inr r1 \<Rightarrow>
                 (case index_conflicts r1 of
                    Some conflicts \<Rightarrow>
                      (Inl (RuntimeError ''Merge conflicts detected. Aborting.''), r1,
                       map conflict_line conflicts)
                  | None \<Rightarrow>
                      (case default_signature r1 of
                         None \<Rightarrow> (Inl KeyError, r1, [])
                       | Some user \<Rightarrow>
                           let tr = write_tree r1 in
                           (case head_target r1 of
                              Inl e \<Rightarrow> (Inl e, r1, [])
                            | Inr h \<Rightarrow>
                                let r2 = snd (create_commit be r1 ''HEAD'' user user ''Merge!''
                                                tr [h, remote_id])
                                in (Inr (), state_cleanup r2, [])))))
          else (Inl (RuntimeError ''Unknown merge analysis result''), repo, []))"

section \<open>main\<close>

text \<open>\<^verbatim>\<open>s.rstrip(chars)\<close> and \<^verbatim>\<open>s.replace(old, new)\<close>.\<close>

definition rstrip :: "string \<Rightarrow> string \<Rightarrow> string" where
  "rstrip s chars = rev (dropWhile (\<lambda>c. c \<in> set chars) (rev s))"

function (sequential) replace :: "string \<Rightarrow> string \<Rightarrow> string \<Rightarrow> string" where
  "replace [] old new = (if old = [] then new else [])"
| "replace (c # cs) old new =
     (if old = [] then new @ c # replace cs old new
      else if prefix old (c # cs) then new @ replace (drop (length old) (c # cs)) old new
      else c # replace cs old new)"
  by pat_completeness auto
termination
  by (relation "measure (\<lambda>(s, old, new). length s)") auto

text \<open>The character U+2026 that ends the progress lines, in UTF-8.\<close>

definition ellipsis :: string where
  "ellipsis = [CHR 0xE2, CHR 0x80, CHR 0xA6]"

text \<open>Lines 85 to 87: emit the pre-update HEAD.\<close>

definition main_pre_head :: "repo \<Rightarrow> string result" where
  "main_pre_head repo =
     (case head_target repo of
        Inl e \<Rightarrow> (Inl e, repo, [])
      | Inr pre_head \<Rightarrow> (Inr pre_head, repo, [''[PRE_UPDATE_HEAD] '' @ pre_head]))"

text \<open>
  Lines 89 to 103: stash local changes. \<^verbatim>\<open>except KeyError\<close> comes first; every other
  exception of the first attempt leads to the repair and the second attempt, whose
  exceptions other than \<^verbatim>\<open>KeyError\<close> are not caught.
\<close>

definition main_stash :: "backend \<Rightarrow> signature \<Rightarrow> repo \<Rightarrow> unit result" where
  "main_stash be ident repo =
     (let l1 = ''Stashing current changes'' @ ellipsis in
      case stash be repo ident of
        Inr r1 \<Rightarrow> (Inr (), r1, [l1])
      | Inl KeyError \<Rightarrow> (Inr (), repo, [l1, ''Nothing to stash.''])
      | Inl _ \<Rightarrow>
          (let l2 = ''Could not stash, cleaning index and trying again.'';
               r1 = state_cleanup repo
           in case head_peel r1 of
                Inl e \<Rightarrow> (Inl e, r1, [l1, l2])
              | Inr (_, hc) \<Rightarrow>
                  (let r2 = index_read_tree r1 (c_tree hc);
                       r3 = index_write r2
                   in case stash be r3 ident of
                        Inr r4 \<Rightarrow> (Inr (), r4, [l1, l2])
                      | Inl KeyError \<Rightarrow> (Inr (), r3, [l1, l2, ''Nothing to stash.''])
                      | Inl e \<Rightarrow> (Inl e, r3, [l1, l2]))))"

text \<open>Lines 105 to 112: create the backup branch; any exception is only a warning.\<close>

definition main_backup :: "backend \<Rightarrow> repo \<Rightarrow> unit result" where
  "main_backup be repo =
     (let backup_name = ''backup_branch_'' @ today be;
          l1 = ''Creating backup branch: '' @ backup_name
      in case (case head_peel repo of
                 Inl e \<Rightarrow> Inl e
               | Inr c \<Rightarrow> create_branch be repo backup_name (Some c)) of
           Inr r1 \<Rightarrow> (Inr (), r1, [l1, ''[BACKUP_BRANCH] '' @ backup_name])
         | Inl _ \<Rightarrow> (Inr (), repo, [l1, ''Warning: could not create backup branch.'']))"

text \<open>
  Lines 114 to 122: fetch from the first remote named \<^verbatim>\<open>origin\<close>, if there is one; the
  loop ends at the first match.
\<close>

definition main_fetch :: "backend \<Rightarrow> bool \<Rightarrow> repo \<Rightarrow> unit result" where
  "main_fetch be stable_opt repo =
     (let l1 = ''Fetching from origin'' @ ellipsis in
      case find (\<lambda>rm. rm_name rm = ''origin'') (remotes repo) of
        None \<Rightarrow> (Inr (), repo, [l1])
      | Some rm \<Rightarrow>
          (let refspecs = [''+refs/heads/master:refs/remotes/origin/master'']
                          @ (if stable_opt then [''+refs/tags/*:refs/tags/*''] else [])
           in case fetch be repo rm refspecs of
                Inl e \<Rightarrow> (Inl e, repo, [l1])
              | Inr r1 \<Rightarrow> (Inr (), r1, [l1])))"

text \<open>Lines 124 to 131: check out master, creating the local branch if needed.\<close>

definition main_checkout :: "backend \<Rightarrow> repo \<Rightarrow> unit result" where
  "main_checkout be repo =
     (let l1 = ''Checking out master branch'' @ ellipsis in
      case (case lookup_branch repo ''master'' of
              Some _ \<Rightarrow> Inr repo
            | None \<Rightarrow>
                (case lookup_reference repo ''refs/remotes/origin/master'' of
                   Inl e \<Rightarrow> Inl e
                 | Inr t \<Rightarrow> create_branch be repo ''master'' (repo_get repo t))) of
        Inl e \<Rightarrow> (Inl e, repo, [l1])
      | Inr r1 \<Rightarrow>
          (case lookup_reference r1 ''refs/heads/master'' of
             Inl e \<Rightarrow> (Inl e, r1, [l1])
           | Inr _ \<Rightarrow>
               (case checkout be r1 ''refs/heads/master'' of
                  Inl e \<Rightarrow> (Inl e, r1, [l1])
                | Inr r2 \<Rightarrow> (Inr (), r2, [l1]))))"

text \<open>Lines 137 to 146: check out the latest stable tag if requested.\<close>

definition main_stable :: "backend \<Rightarrow> bool \<Rightarrow> repo \<Rightarrow> unit result" where
  "main_stable be stable_opt repo =
     (if stable_opt then
        (case find_latest_stable_tag repo of
           Some tag \<Rightarrow>
             (let l1 = ''Checking out stable tag: '' @ tag in
              case checkout be repo tag of
                Inl e \<Rightarrow> (Inl e, repo, [l1])
              | Inr r1 \<Rightarrow>
                  (let tag_name = replace tag ''refs/tags/'' []
                   in (Inr (), r1, [l1, ''[CHECKED_OUT_TAG] '' @ tag_name])))
         | None \<Rightarrow> (Inr (), repo, [''No stable tags found, staying on master.'']))
      else (Inr (), repo, []))"

text \<open>Lines 148 to 152: emit the post-update HEAD.\<close>

definition main_post_head :: "repo \<Rightarrow> unit result" where
  "main_post_head repo =
     (case head_target repo of
        Inl e \<Rightarrow> (Inl e, repo, [])
      | Inr post_head \<Rightarrow> (Inr (), repo, [''[POST_UPDATE_HEAD] '' @ post_head, ''Done!'']))"

text \<open>
  Lines 83 to 152 in their order, on the opened repository. The identity of line 83 is
  the one the stash is made with; \<^verbatim>\<open>pull\<close> asks the repository for its own.
\<close>

definition main_update :: "backend \<Rightarrow> bool \<Rightarrow> repo \<Rightarrow> unit result" where
  "main_update be stable_opt repo =
     (let ident = \<lparr>sig_name = ''comfyui'', sig_email = ''comfy@ui''\<rparr> in
      then_run (main_pre_head repo) (\<lambda>pre_head repo.
      then_run (main_stash be ident repo) (\<lambda>_ repo.
      then_run (main_backup be repo) (\<lambda>_ repo.
      then_run (main_fetch be stable_opt repo) (\<lambda>_ repo.
      then_run (main_checkout be repo) (\<lambda>_ repo.
      then_run (Inr (), repo, [''Pulling latest changes'' @ ellipsis]) (\<lambda>_ repo.
      then_run (pull be repo ''origin'' ''master'') (\<lambda>_ repo.
      then_run (main_stable be stable_opt repo) (\<lambda>_ repo.
      main_post_head repo)))))))))"

text \<open>
  The steps of \<open>main_update\<close> that follow the backup branch (lines 114 to 152), named
  for the statements about them.
\<close>

definition after_backup :: "backend \<Rightarrow> bool \<Rightarrow> repo \<Rightarrow> unit result" where
  "after_backup be stable_opt repo =
     then_run (main_fetch be stable_opt repo) (\<lambda>_ repo.
     then_run (main_checkout be repo) (\<lambda>_ repo.
     then_run (Inr (), repo, [''Pulling latest changes'' @ ellipsis]) (\<lambda>_ repo.
     then_run (pull be repo ''origin'' ''master'') (\<lambda>_ repo.
     then_run (main_stable be stable_opt repo) (\<lambda>_ repo.
     main_post_head repo)))))"

text \<open>
  \<^verbatim>\<open>main\<close> from the command line: the usage exit, the path without trailing
  separators, the flag, and the repository opened by the backend (the option set on
  line 81 only decides whether a repository owned by someone else opens).
  How the process ends: \<open>Returned\<close> when \<^verbatim>\<open>main\<close> returns, \<open>Raised\<close> for an uncaught
  exception, \<open>Exited\<close> for \<^verbatim>\<open>sys.exit\<close>.
\<close>

datatype status = Returned | Raised exn | Exited int

definition main :: "backend \<Rightarrow> string list \<Rightarrow> status \<times> repo option \<times> string list" where
  "main be argv =
     (if length argv < 2 then
        (Exited 1, None, [''Usage: python update_comfyui.py <repo_path> [--stable]''])
      else
        (let repo_path = rstrip (argv ! 1) [CHR ''/'', CHR 0x5C];
             stable_opt = (''--stable'' \<in> set argv)
         in case open_repository be repo_path of
              Inl e \<Rightarrow> (Raised e, None, [])
            | Inr repo \<Rightarrow>
                (case main_update be stable_opt repo of
                   (Inl e, r, out) \<Rightarrow> (Raised e, Some r, out)
                 | (Inr _, r, out) \<Rightarrow> (Returned, Some r, out))))"

section \<open>The structured markers\<close>

text \<open>
  The position of a line in the order of the markers, when the line is a marker line.
\<close>

definition marker_rank :: "string \<Rightarrow> nat option" where
  "marker_rank line =
     (if startswith line ''[PRE_UPDATE_HEAD] '' then Some 0
      else if startswith line ''[BACKUP_BRANCH] '' then Some 1
      else if startswith line ''[CHECKED_OUT_TAG] '' then Some 2
      else if startswith line ''[POST_UPDATE_HEAD] '' then Some 3
      else None)"

text \<open>
  The ranks of the marker lines of an output, in the order of printing. That the list
  is strictly increasing says that the markers come in the order PRE_UPDATE_HEAD,
  BACKUP_BRANCH, CHECKED_OUT_TAG, POST_UPDATE_HEAD, each at most once.
\<close>

definition marker_ranks :: "string list \<Rightarrow> nat list" where
  "marker_ranks out = List.map_filter marker_rank out"

text \<open>
  An output whose markers are in order, have ranks from \<open>lo\<close> up to but not including
  \<open>hi\<close>, and in which only marker lines begin with a bracket.
\<close>

definition markers_between :: "nat \<Rightarrow> nat \<Rightarrow> string list \<Rightarrow> bool" where
  "markers_between lo hi out \<longleftrightarrow>
     sorted_wrt (<) (marker_ranks out)
     \<and> (\<forall>k \<in> set (marker_ranks out). lo \<le> k \<and> k < hi)
     \<and> (\<forall>l \<in> set out. startswith l ''['' \<longrightarrow> marker_rank l \<noteq> None)"

text \<open>A small repository for the examples.\<close>

definition sig_demo :: signature where
  "sig_demo = \<lparr>sig_name = ''dev'', sig_email = ''dev@example.org''\<rparr>"

definition commit_a :: commit where
  "commit_a = \<lparr>c_tree = ''tA'', c_parents = [], c_message = ''first'',
                c_author = sig_demo, c_committer = sig_demo\<rparr>"

definition commit_b :: commit where
  "commit_b = \<lparr>c_tree = ''tB'', c_parents = [''a1''], c_message = ''second'',
                c_author = sig_demo, c_committer = sig_demo\<rparr>"

definition repo_demo :: repo where
  "repo_demo =
     \<lparr>head = Branch ''master'',
      refs = [(''refs/heads/master'', ''a1''), (''refs/remotes/origin/master'', ''b2'')],
      commits = [(''a1'', commit_a), (''b2'', commit_b)],
      index = \<lparr>ix_tree = ''tA'', ix_conflicts = []\<rparr>,
      index_file = \<lparr>ix_tree = ''tA'', ix_conflicts = []\<rparr>,
      workdir = ''tA'',
      merge_heads = [],
      remotes = [\<lparr>rm_name = ''origin'', rm_url = ''https://example.org/repo.git''\<rparr>],
      default_signature = Some sig_demo\<rparr>"

definition backend_demo :: backend where
  "backend_demo =
     \<lparr>open_repository =
        (\<lambda>p. if p = ''/srv/comfy'' then Inr repo_demo
             else Inl (BackendError ''repository not found'')),
      today = ''2026-11-03_12_00_00'',
      merge_analysis = (\<lambda>r t. 5),
      checkout_blocked = (\<lambda>r t. None),
      merge_result =
        (\<lambda>r t. Inr \<lparr>mo_tree = ''tM'', mo_conflicts = [], mo_workdir = ''tM''\<rparr>),
      stash_result = (\<lambda>r i. Inl KeyError),
      branch_error = (\<lambda>r b. None),
      fetch_result =
        (\<lambda>r rm specs. Inr \<lparr>f_refs = [(''refs/heads/master'', ''b2'')], f_commits = []\<rparr>),
      commit_oid = (\<lambda>c. ''m3'')\<rparr>"


definition backend_retry :: backend where
  "backend_retry =
     backend_demo\<lparr>stash_result :=
       (\<lambda>r i. if merge_heads r \<noteq> [] then Inl (BackendError ''index is not clean'')
              else Inl KeyError)\<rparr>"

definition repo_merging :: repo where
  "repo_merging = repo_demo\<lparr>merge_heads := [''b2'']\<rparr>"

definition repo_no_origin :: repo where
  "repo_no_origin =
     repo_demo\<lparr>remotes := [\<lparr>rm_name = ''upstream'', rm_url = ''https://example.org/up.git''\<rparr>]\<rparr>"

definition backend_no_branch :: backend where
  "backend_no_branch =
     backend_demo\<lparr>branch_error := (\<lambda>r b. Some (BackendError ''cannot lock ref''))\<rparr>"

text \<open>A remote with two version tags, and the command line of a stable update.\<close>

definition backend_full :: backend where
  "backend_full =
     backend_demo\<lparr>fetch_result :=
       (\<lambda>r rm specs. Inr \<lparr>f_refs = [(''refs/heads/master'', ''b2''),
                                    (''refs/tags/v1.2.3'', ''a1''),
                                    (''refs/tags/v1.10.0'', ''b2'')],
                          f_commits = []\<rparr>)\<rparr>"

definition argv_demo :: "string list" where
  "argv_demo = [''update_comfyui.py'', ''/srv/comfy/'', ''--stable'']"

definition repo_updated :: repo where
  "repo_updated =
     repo_demo\<lparr>head := Detached ''b2'',
       refs := [(''refs/heads/master'', ''b2''),
                (''refs/remotes/origin/master'', ''b2''),
                (''refs/heads/backup_branch_2026-11-03_12_00_00'', ''a1''),
                (''refs/tags/v1.2.3'', ''a1''), (''refs/tags/v1.10.0'', ''b2'')],
       index := \<lparr>ix_tree = ''tB'', ix_conflicts = []\<rparr>,
       index_file := \<lparr>ix_tree = ''tB'', ix_conflicts = []\<rparr>,
       workdir := ''tB''\<rparr>"

definition out_demo :: "string list" where
  "out_demo =
     [''[PRE_UPDATE_HEAD] a1'',
      ''Stashing current changes'' @ ellipsis,
      ''Nothing to stash.'',
      ''Creating backup branch: backup_branch_2026-11-03_12_00_00'',
      ''[BACKUP_BRANCH] backup_branch_2026-11-03_12_00_00'',
      ''Fetching from origin'' @ ellipsis,
      ''Checking out master branch'' @ ellipsis,
      ''Pulling latest changes'' @ ellipsis,
      ''Checking out stable tag: refs/tags/v1.10.0'',
      ''[CHECKED_OUT_TAG] v1.10.0'',
      ''[POST_UPDATE_HEAD] b2'',
      ''Done!'']"

section \<open>Properties of the tag selection\<close>
















section \<open>Properties of pull\<close>

lemma map_of_set_target:
  "map_of (refs (set_target r n t)) = (map_of (refs r))(n \<mapsto> t)"
  by (simp add: set_target_def update_conv')

lemma set_target_frame:
  "head (set_target r n t) = head r" "commits (set_target r n t) = commits r"
  "index (set_target r n t) = index r" "index_file (set_target r n t) = index_file r"
  "workdir (set_target r n t) = workdir r" "merge_heads (set_target r n t) = merge_heads r"
  "remotes (set_target r n t) = remotes r"
  "default_signature (set_target r n t) = default_signature r"
  by (simp_all add: set_target_def)

lemma head_target_cong:
  "head r' = head r \<Longrightarrow> refs r' = refs r \<Longrightarrow> head_target r' = head_target r"
  by (cases "head r") (simp_all add: head_target_def)



text \<open>
  C6. When the analysis has the up-to-date bit, \<^verbatim>\<open>pull\<close> returns normally with the
  repository record unchanged (HEAD, every reference, the index, the working tree and
  all the rest) after printing one line.
\<close>

theorem pull_up_to_date:
  assumes "lookup_reference repo (''refs/remotes/'' @ remote_name @ ''/'' @ branch) = Inr remote_id"
    and "merge_analysis be repo remote_id AND GIT_MERGE_ANALYSIS_UP_TO_DATE \<noteq> 0"
  shows "pull be repo remote_name branch = (Inr (), repo, [''Already up to date.''])"
  using assms by (simp add: pull_def)

text \<open>An analysis of 2 is the up-to-date bit alone.\<close>

theorem pull_up_to_date_witness:
  "pull (backend_demo\<lparr>merge_analysis := (\<lambda>r t. 2)\<rparr>) repo_demo ''origin'' ''master''
     = (Inr (), repo_demo, [''Already up to date.''])"
proof -
  have lk: "lookup_reference repo_demo (''refs/remotes/'' @ ''origin'' @ ''/'' @ ''master'') = Inr ''b2''"
    by (simp add: lookup_reference_def repo_demo_def)
  have ud: "merge_analysis (backend_demo\<lparr>merge_analysis := (\<lambda>r t. 2)\<rparr>) repo_demo ''b2''
              AND GIT_MERGE_ANALYSIS_UP_TO_DATE \<noteq> 0"
    by (simp add: GIT_MERGE_ANALYSIS_UP_TO_DATE_def)
  from pull_up_to_date [OF lk ud] show ?thesis .
qed








section \<open>Properties of the steps of main\<close>

lemma head_peel_cong:
  "head r' = head r \<Longrightarrow> refs r' = refs r \<Longrightarrow> commits r' = commits r \<Longrightarrow>
   head_peel r' = head_peel r"
proof -
  assume a: "head r' = head r" "refs r' = refs r" "commits r' = commits r"
  have "repo_get r' t = repo_get r t" for t
    by (simp add: repo_get_def a)
  then show ?thesis
    by (cases "head_target r") (simp_all add: head_peel_def head_target_cong [OF a(1,2)])
qed

text \<open>
  C7. A first attempt that saves the changes, or that reports nothing to save, ends the
  step normally. When the first attempt fails with any other exception (and HEAD
  peels to a commit), the index becomes exactly the tree of that commit, with no
  conflicts, and is written back, HEAD, the references, the commits and the working
  tree being untouched; the stash is then tried once more on that repository and the
  step ends with it: normally when it saves the changes or reports nothing to save,
  with its exception otherwise.
\<close>

theorem main_stash_retry:
  "(\<forall>r1. stash be repo ident = Inr r1 \<longrightarrow>
       main_stash be ident repo = (Inr (), r1, [''Stashing current changes'' @ ellipsis]))
   \<and> (stash be repo ident = Inl KeyError \<longrightarrow>
       main_stash be ident repo =
         (Inr (), repo, [''Stashing current changes'' @ ellipsis, ''Nothing to stash.'']))
   \<and> (\<forall>e t hc. stash be repo ident = Inl e \<and> e \<noteq> KeyError \<and> head_peel repo = Inr (t, hc) \<longrightarrow>
        (let r3 = index_write (index_read_tree (state_cleanup repo) (c_tree hc));
             l1 = ''Stashing current changes'' @ ellipsis;
             l2 = ''Could not stash, cleaning index and trying again.''
         in index r3 = \<lparr>ix_tree = c_tree hc, ix_conflicts = []\<rparr>
            \<and> index_file r3 = index r3
            \<and> head r3 = head repo \<and> refs r3 = refs repo \<and> commits r3 = commits repo
            \<and> workdir r3 = workdir repo
            \<and> (case stash be r3 ident of
                  Inr r4 \<Rightarrow> main_stash be ident repo = (Inr (), r4, [l1, l2])
                | Inl e2 \<Rightarrow>
                    if e2 = KeyError
                    then main_stash be ident repo = (Inr (), r3, [l1, l2, ''Nothing to stash.''])
                    else main_stash be ident repo = (Inl e2, r3, [l1, l2]))))"
proof (intro conjI allI impI)
  fix r1 assume "stash be repo ident = Inr r1"
  then show "main_stash be ident repo = (Inr (), r1, [''Stashing current changes'' @ ellipsis])"
    by (simp add: main_stash_def)
next
  assume "stash be repo ident = Inl KeyError"
  then show "main_stash be ident repo =
      (Inr (), repo, [''Stashing current changes'' @ ellipsis, ''Nothing to stash.''])"
    by (simp add: main_stash_def)
next
  fix e t hc
  assume a: "stash be repo ident = Inl e \<and> e \<noteq> KeyError \<and> head_peel repo = Inr (t, hc)"
  define r3 where "r3 = index_write (index_read_tree (state_cleanup repo) (c_tree hc))"
  have hp: "head_peel (state_cleanup repo) = Inr (t, hc)"
    using a head_peel_cong [of "state_cleanup repo" repo] by (simp add: state_cleanup_def)
  have fr: "index r3 = \<lparr>ix_tree = c_tree hc, ix_conflicts = []\<rparr>" "index_file r3 = index r3"
    "head r3 = head repo" "refs r3 = refs repo" "commits r3 = commits repo"
    "workdir r3 = workdir repo"
    by (simp_all add: r3_def index_write_def index_read_tree_def state_cleanup_def)
  have ms: "main_stash be ident repo =
      (case stash be r3 ident of
         Inr r4 \<Rightarrow> (Inr (), r4, [''Stashing current changes'' @ ellipsis,
                      ''Could not stash, cleaning index and trying again.''])
       | Inl KeyError \<Rightarrow> (Inr (), r3, [''Stashing current changes'' @ ellipsis,
                      ''Could not stash, cleaning index and trying again.'', ''Nothing to stash.''])
       | Inl e2 \<Rightarrow> (Inl e2, r3, [''Stashing current changes'' @ ellipsis,
                      ''Could not stash, cleaning index and trying again.'']))"
    using a hp
    by (cases e; cases "stash be (index_write (index_read_tree (state_cleanup repo) (c_tree hc))) ident")
       (simp_all add: main_stash_def Let_def r3_def split: exn.splits)
  have "case stash be r3 ident of
          Inr r4 \<Rightarrow> main_stash be ident repo = (Inr (), r4, [''Stashing current changes'' @ ellipsis,
                      ''Could not stash, cleaning index and trying again.''])
        | Inl e2 \<Rightarrow>
            if e2 = KeyError
            then main_stash be ident repo = (Inr (), r3, [''Stashing current changes'' @ ellipsis,
                      ''Could not stash, cleaning index and trying again.'', ''Nothing to stash.''])
            else main_stash be ident repo = (Inl e2, r3, [''Stashing current changes'' @ ellipsis,
                      ''Could not stash, cleaning index and trying again.''])"
    unfolding ms by (simp split: sum.splits exn.splits)
  with fr show "let r3 = index_write (index_read_tree (state_cleanup repo) (c_tree hc));
             l1 = ''Stashing current changes'' @ ellipsis;
             l2 = ''Could not stash, cleaning index and trying again.''
         in index r3 = \<lparr>ix_tree = c_tree hc, ix_conflicts = []\<rparr>
            \<and> index_file r3 = index r3
            \<and> head r3 = head repo \<and> refs r3 = refs repo \<and> commits r3 = commits repo
            \<and> workdir r3 = workdir repo
            \<and> (case stash be r3 ident of
                  Inr r4 \<Rightarrow> main_stash be ident repo = (Inr (), r4, [l1, l2])
                | Inl e2 \<Rightarrow>
                    if e2 = KeyError
                    then main_stash be ident repo = (Inr (), r3, [l1, l2, ''Nothing to stash.''])
                    else main_stash be ident repo = (Inl e2, r3, [l1, l2]))"
    unfolding Let_def r3_def by blast
qed

text \<open>
  A first attempt that fails while a merge is in progress, and a second one that finds
  nothing to save.
\<close>

theorem main_stash_retry_witness:
  "main_stash backend_retry sig_demo repo_merging =
     (Inr (),
      repo_merging\<lparr>merge_heads := [], index := \<lparr>ix_tree = ''tA'', ix_conflicts = []\<rparr>,
                    index_file := \<lparr>ix_tree = ''tA'', ix_conflicts = []\<rparr>\<rparr>,
      [''Stashing current changes'' @ ellipsis,
       ''Could not stash, cleaning index and trying again.'', ''Nothing to stash.''])"
proof -
  have hp: "head_peel repo_merging = Inr (''a1'', commit_a)"
    by (simp add: head_peel_def head_target_def repo_get_def repo_merging_def repo_demo_def)
  have s1: "stash backend_retry repo_merging sig_demo = Inl (BackendError ''index is not clean'')"
    by (simp add: stash_def hp) (simp add: backend_retry_def repo_merging_def)
  let ?r3 = "index_write (index_read_tree (state_cleanup repo_merging) (c_tree commit_a))"
  have r3: "?r3 = repo_merging\<lparr>merge_heads := [], index := \<lparr>ix_tree = ''tA'', ix_conflicts = []\<rparr>,
                    index_file := \<lparr>ix_tree = ''tA'', ix_conflicts = []\<rparr>\<rparr>"
    by (simp add: index_write_def index_read_tree_def state_cleanup_def commit_a_def)
  have hp3: "head_peel ?r3 = Inr (''a1'', commit_a)"
    unfolding r3
    by (simp add: head_peel_def head_target_def repo_get_def repo_merging_def repo_demo_def)
  have s2: "stash backend_retry ?r3 sig_demo = Inl KeyError"
    by (simp add: stash_def hp3) (simp add: backend_retry_def r3)
  from main_stash_retry [of backend_retry repo_merging sig_demo] s1 hp
  have "case stash backend_retry ?r3 sig_demo of
          Inr r4 \<Rightarrow> main_stash backend_retry sig_demo repo_merging =
             (Inr (), r4, [''Stashing current changes'' @ ellipsis,
                           ''Could not stash, cleaning index and trying again.''])
        | Inl e2 \<Rightarrow>
            if e2 = KeyError
            then main_stash backend_retry sig_demo repo_merging =
               (Inr (), ?r3, [''Stashing current changes'' @ ellipsis,
                  ''Could not stash, cleaning index and trying again.'', ''Nothing to stash.''])
            else main_stash backend_retry sig_demo repo_merging =
               (Inl e2, ?r3, [''Stashing current changes'' @ ellipsis,
                  ''Could not stash, cleaning index and trying again.''])"
    unfolding Let_def by blast
  then show ?thesis
    unfolding s2 by (simp add: r3)
qed

text \<open>
  C8. When the creation of the backup branch raises, whatever the exception, the step
  prints the warning, returns normally with the repository unchanged, and the run goes
  on with the next step. When the creation succeeds the marker is printed. A line with
  the marker is printed exactly when the creation succeeds.
\<close>

theorem main_backup_failure:
  "(let backup_name = ''backup_branch_'' @ today be;
        attempt = (case head_peel repo of
                     Inl e \<Rightarrow> Inl e
                   | Inr c \<Rightarrow> create_branch be repo backup_name (Some c));
        l1 = ''Creating backup branch: '' @ backup_name;
        warning = ''Warning: could not create backup branch.''
    in (\<forall>e. attempt = Inl e \<longrightarrow>
            main_backup be repo = (Inr (), repo, [l1, warning])
          \<and> (\<forall>k. then_run (main_backup be repo) k =
                 (case k () repo of (y, r', out') \<Rightarrow> (y, r', [l1, warning] @ out'))))
     \<and> (\<forall>r1. attempt = Inr r1 \<longrightarrow>
            main_backup be repo = (Inr (), r1, [l1, ''[BACKUP_BRANCH] '' @ backup_name]))
     \<and> ((\<exists>l \<in> set (snd (snd (main_backup be repo))). startswith l ''[BACKUP_BRANCH] '')
          \<longleftrightarrow> (\<exists>r1. attempt = Inr r1)))"
proof -
  define attempt where "attempt = (case head_peel repo of
                     Inl e \<Rightarrow> Inl e
                   | Inr c \<Rightarrow> create_branch be repo (''backup_branch_'' @ today be) (Some c))"
  have mb: "main_backup be repo =
      (case attempt of
         Inr r1 \<Rightarrow> (Inr (), r1, [''Creating backup branch: '' @ ''backup_branch_'' @ today be,
                       ''[BACKUP_BRANCH] '' @ ''backup_branch_'' @ today be])
       | Inl _ \<Rightarrow> (Inr (), repo, [''Creating backup branch: '' @ ''backup_branch_'' @ today be,
                       ''Warning: could not create backup branch.'']))"
    unfolding main_backup_def Let_def attempt_def by (rule refl)
  show ?thesis
    unfolding Let_def attempt_def [symmetric] mb
    by (cases attempt) (simp_all add: then_run_def startswith_def)
qed

text \<open>A backend that refuses to create the branch, and one that creates it.\<close>

theorem main_backup_failure_witness:
  "main_backup backend_no_branch repo_demo =
     (Inr (), repo_demo,
      [''Creating backup branch: backup_branch_2026-11-03_12_00_00'',
       ''Warning: could not create backup branch.''])
   \<and> main_backup backend_demo repo_demo =
     (Inr (), set_target repo_demo ''refs/heads/backup_branch_2026-11-03_12_00_00'' ''a1'',
      [''Creating backup branch: backup_branch_2026-11-03_12_00_00'',
       ''[BACKUP_BRANCH] backup_branch_2026-11-03_12_00_00''])"
proof -
  have hp: "head_peel repo_demo = Inr (''a1'', commit_a)"
    by (simp add: head_peel_def head_target_def repo_get_def repo_demo_def)
  have td: "today backend_no_branch = ''2026-11-03_12_00_00''"
    "today backend_demo = ''2026-11-03_12_00_00''"
    by (simp_all add: backend_no_branch_def backend_demo_def)
  have a1: "(case head_peel repo_demo of Inl e \<Rightarrow> Inl e
             | Inr c \<Rightarrow> create_branch backend_no_branch repo_demo
                         (''backup_branch_'' @ today backend_no_branch) (Some c))
            = Inl (BackendError ''cannot lock ref'')"
    by (simp add: hp create_branch_def td) (simp add: backend_no_branch_def repo_demo_def)
  have a2: "(case head_peel repo_demo of Inl e \<Rightarrow> Inl e
             | Inr c \<Rightarrow> create_branch backend_demo repo_demo
                         (''backup_branch_'' @ today backend_demo) (Some c))
            = Inr (set_target repo_demo ''refs/heads/backup_branch_2026-11-03_12_00_00'' ''a1'')"
    by (simp add: hp create_branch_def td) (simp add: backend_demo_def repo_demo_def)
  from main_backup_failure [of backend_no_branch repo_demo] a1
  have w1: "main_backup backend_no_branch repo_demo =
     (Inr (), repo_demo,
      [''Creating backup branch: '' @ ''backup_branch_'' @ today backend_no_branch,
       ''Warning: could not create backup branch.''])"
    unfolding Let_def by blast
  from main_backup_failure [of backend_demo repo_demo] a2
  have w2: "main_backup backend_demo repo_demo =
     (Inr (), set_target repo_demo ''refs/heads/backup_branch_2026-11-03_12_00_00'' ''a1'',
      [''Creating backup branch: '' @ ''backup_branch_'' @ today backend_demo,
       ''[BACKUP_BRANCH] '' @ ''backup_branch_'' @ today backend_demo])"
    unfolding Let_def by blast
  from w1 w2 show ?thesis by (simp add: td)
qed

text \<open>
  C10. Without a remote named \<^verbatim>\<open>origin\<close> the fetch step returns normally with the
  repository unchanged, whatever the backend's fetch would do, after printing only its
  progress line; the run goes on with the next step on the same repository.
\<close>

theorem main_fetch_no_origin:
  assumes "\<forall>rm \<in> set (remotes repo). rm_name rm \<noteq> ''origin''"
  shows "main_fetch be stable_opt repo = (Inr (), repo, [''Fetching from origin'' @ ellipsis])
    \<and> (\<forall>f. main_fetch (be\<lparr>fetch_result := f\<rparr>) stable_opt repo = main_fetch be stable_opt repo)
    \<and> (\<forall>k. then_run (main_fetch be stable_opt repo) k =
            (case k () repo of (y, r', out') \<Rightarrow> (y, r', (''Fetching from origin'' @ ellipsis) # out')))"
proof -
  have "find (\<lambda>rm. rm_name rm = ''origin'') (remotes repo) = None"
    using assms by (simp add: find_None_iff)
  then have "main_fetch b stable_opt repo = (Inr (), repo, [''Fetching from origin'' @ ellipsis])" for b
    by (simp add: main_fetch_def)
  then show ?thesis by (simp add: then_run_def)
qed

text \<open>A repository whose only remote is called \<^verbatim>\<open>upstream\<close>.\<close>

theorem main_fetch_no_origin_witness:
  "main_fetch backend_demo True repo_no_origin =
     (Inr (), repo_no_origin, [''Fetching from origin'' @ ellipsis])"
proof -
  have "\<forall>rm \<in> set (remotes repo_no_origin). rm_name rm \<noteq> ''origin''"
    by (simp add: repo_no_origin_def)
  from main_fetch_no_origin [OF this, of backend_demo True] show ?thesis by blast
qed

section \<open>The markers of a run\<close>

lemma main_demo_run: "main backend_full argv_demo = (Returned, Some repo_updated, out_demo)"
  by code_simp

lemma marker_rank_plain: "\<not> startswith l ''['' \<Longrightarrow> marker_rank l = None"
  by (cases l) (simp_all add: marker_rank_def startswith_def)

lemma marker_ranks_append: "marker_ranks (xs @ ys) = marker_ranks xs @ marker_ranks ys"
  by (simp add: marker_ranks_def List.map_filter_def)

lemma mb_plain:
  assumes "\<forall>l \<in> set out. \<not> startswith l ''[''"
  shows "markers_between n n out"
proof -
  have "marker_ranks out = []"
    using assms by (simp add: marker_ranks_def List.map_filter_def marker_rank_plain filter_empty_conv)
  with assms show ?thesis by (simp add: markers_between_def)
qed

lemma mb_mono:
  "markers_between a b out \<Longrightarrow> a' \<le> a \<Longrightarrow> b \<le> b' \<Longrightarrow> markers_between a' b' out"
  by (fastforce simp: markers_between_def)

lemma mb_append:
  assumes "markers_between a b o1" "markers_between b c o2" "a \<le> b" "b \<le> c"
  shows "markers_between a c (o1 @ o2)"
  using assms
  by (fastforce simp: markers_between_def marker_ranks_append sorted_wrt_append)

lemma mb_then_run:
  assumes m: "markers_between a b (snd (snd m))"
    and f: "\<And>x r. markers_between b c (snd (snd (f x r)))"
    and le: "a \<le> b" "b \<le> c"
  shows "markers_between a c (snd (snd (then_run m f)))"
proof -
  obtain res r out where mm: "m = (res, r, out)" by (cases m)
  show ?thesis
  proof (cases res)
    case (Inl e)
    with mm m le show ?thesis by (simp add: then_run_def mb_mono)
  next
    case (Inr x)
    obtain y r' out' where ff: "f x r = (y, r', out')" by (cases "f x r")
    from f [of x r] ff have "markers_between b c out'" by simp
    with m mm le have "markers_between a c (out @ out')" by (simp add: mb_append)
    with mm Inr ff show ?thesis by (simp add: then_run_def)
  qed
qed


lemma mb_stash: "markers_between n n (snd (snd (main_stash be ident r)))"
  by (rule mb_plain)
     (auto simp: main_stash_def Let_def startswith_def ellipsis_def
        split: sum.splits exn.splits prod.splits)

lemma mb_backup: "markers_between 1 2 (snd (snd (main_backup be r)))"
  by (auto simp: main_backup_def Let_def markers_between_def marker_ranks_def marker_rank_def
        startswith_def split: sum.splits)

lemma mb_fetch: "markers_between n n (snd (snd (main_fetch be st r)))"
  by (rule mb_plain)
     (auto simp: main_fetch_def Let_def startswith_def split: sum.splits option.splits)

lemma mb_checkout: "markers_between n n (snd (snd (main_checkout be r)))"
  by (rule mb_plain)
     (auto simp: main_checkout_def Let_def startswith_def split: sum.splits option.splits)

lemma conflict_line_plain: "\<not> startswith (conflict_line c) ''[''"
  by (simp add: conflict_line_def startswith_def)

lemma pull_printed:
  "snd (snd (pull be r rn b)) = [] \<or> snd (snd (pull be r rn b)) = [''Already up to date.'']
   \<or> (\<exists>cs. snd (snd (pull be r rn b)) = map conflict_line cs)"
  by (auto simp: pull_def Let_def split: sum.splits option.splits exn.splits)

lemma mb_pull: "markers_between n n (snd (snd (pull be r rn b)))"
proof (rule mb_plain)
  from pull_printed [of be r rn b]
  show "\<forall>l \<in> set (snd (snd (pull be r rn b))). \<not> startswith l ''[''"
    by (auto simp: conflict_line_plain) (simp add: startswith_def)
qed

lemma mb_stable: "markers_between 2 3 (snd (snd (main_stable be st r)))"
  by (auto simp: main_stable_def Let_def markers_between_def marker_ranks_def marker_rank_def
        startswith_def split: sum.splits option.splits)

lemma mb_post_head: "markers_between 3 4 (snd (snd (main_post_head r)))"
  by (cases "head_target r")
     (simp_all add: main_post_head_def markers_between_def marker_ranks_def marker_rank_def startswith_def)







section \<open>The backup branch through a run\<close>

lemma then_run_elim:
  assumes "then_run m f = (res, r', out)"
  obtains (raise) e where "m = (Inl e, r', out)" "res = Inl e"
  | (cont) x r1 o1 o2 where "m = (Inr x, r1, o1)" "f x r1 = (res, r', o2)" "out = o1 @ o2"
proof -
  obtain mres r1 o1 where m: "m = (mres, r1, o1)" by (cases m)
  show ?thesis
  proof (cases mres)
    case (Inl e)
    with assms m show ?thesis by (intro raise [of e]) (simp_all add: then_run_def)
  next
    case (Inr x)
    obtain y r2 o2 where f: "f x r1 = (y, r2, o2)" by (cases "f x r1")
    with assms m Inr show ?thesis
      by (intro cont [of x r1 o1 o2]) (simp_all add: then_run_def)
  qed
qed

lemma refspec_dst_master:
  "refspec_dst ''+refs/heads/master:refs/remotes/origin/master'' m = Some d \<Longrightarrow>
   d = ''refs/remotes/origin/master''"
  by (simp add: refspec_dst_def Let_def split: if_splits)

lemma refspec_dst_tags:
  "refspec_dst ''+refs/tags/*:refs/tags/*'' m = Some d \<Longrightarrow> prefix ''refs/tags/'' d"
  by (auto simp: refspec_dst_def Let_def split: if_splits)

lemma apply_refspec_keeps:
  assumes "\<And>m d. refspec_dst spec m = Some d \<Longrightarrow> d \<noteq> n"
  shows "map_of (refs (apply_refspec spec rr r)) n = map_of (refs r) n"
    and "head (apply_refspec spec rr r) = head r"
proof -
  have "map_of (refs (fold (\<lambda>(m, t) r'. case refspec_dst spec m of None \<Rightarrow> r'
                        | Some d \<Rightarrow> set_target r' d t) rr r)) n = map_of (refs r) n
        \<and> head (fold (\<lambda>(m, t) r'. case refspec_dst spec m of None \<Rightarrow> r'
                        | Some d \<Rightarrow> set_target r' d t) rr r) = head r"
  proof (induction rr arbitrary: r)
    case Nil
    show ?case by simp
  next
    case (Cons a rr)
    obtain m t where a: "a = (m, t)" by (cases a)
    show ?case
    proof (cases "refspec_dst spec m")
      case None
      with a Cons show ?thesis by simp
    next
      case (Some d)
      with assms have "d \<noteq> n" by blast
      with a Some Cons [of "set_target r d t"] show ?thesis
        by (simp add: map_of_set_target set_target_frame)
    qed
  qed
  then show "map_of (refs (apply_refspec spec rr r)) n = map_of (refs r) n"
    and "head (apply_refspec spec rr r) = head r"
    by (simp_all add: apply_refspec_def)
qed

lemma fetch_keeps:
  assumes "main_fetch be st r = (res, r1, o1)"
    and "n \<noteq> ''refs/remotes/origin/master''" and "\<not> prefix ''refs/tags/'' n"
  shows "map_of (refs r1) n = map_of (refs r) n"
proof -
  have k1: "map_of (refs (apply_refspec ''+refs/heads/master:refs/remotes/origin/master'' rr q)) n
            = map_of (refs q) n" for rr q
    using refspec_dst_master assms(2) by (intro apply_refspec_keeps) blast
  have k2: "map_of (refs (apply_refspec ''+refs/tags/*:refs/tags/*'' rr q)) n
            = map_of (refs q) n" for rr q
    using refspec_dst_tags assms(3) by (intro apply_refspec_keeps) blast
  from assms(1) show ?thesis
    by (auto simp: main_fetch_def Let_def fetch_def k1 k2 split: option.splits sum.splits if_splits)
qed

lemma create_branch_Inr:
  "create_branch be r b c = Inr r1 \<Longrightarrow>
   \<exists>t cm. c = Some (t, cm) \<and> r1 = set_target r (''refs/heads/'' @ b) t"
  by (auto simp: create_branch_def split: option.splits if_splits)

lemma checkout_tree_Inr:
  "checkout_tree be r c = Inr r1 \<Longrightarrow> refs r1 = refs r \<and> head r1 = head r \<and> commits r1 = commits r"
  by (auto simp: checkout_tree_def split: option.splits)

lemma checkout_Inr:
  "checkout be r refname = Inr r1 \<Longrightarrow>
   refs r1 = refs r \<and> commits r1 = commits r \<and>
   (\<exists>t. head r1 = (if startswith refname ''refs/heads/''
                    then Branch (drop (length ''refs/heads/'') refname) else Detached t))"
  by (auto simp: checkout_def set_head_def split: sum.splits option.splits dest!: checkout_tree_Inr)

lemma checkout_keeps:
  assumes "main_checkout be r = (res, r1, o1)" and "n \<noteq> ''refs/heads/master''"
  shows "map_of (refs r1) n = map_of (refs r) n"
    and "res = Inr x \<Longrightarrow> head r1 = Branch ''master''"
  using assms
  by (auto simp: main_checkout_def Let_def map_of_set_target startswith_def
      split: option.splits sum.splits dest!: create_branch_Inr checkout_Inr)

lemma head_target_keeps:
  assumes "head r' = head r"
    and "\<And>b. map_of (refs r') (''refs/heads/'' @ b) = map_of (refs r) (''refs/heads/'' @ b)"
  shows "head_target r' = head_target r"
  using assms by (cases "head r") (simp_all add: head_target_def)

lemma main_update_after_backup:
  "main_update be st repo =
     then_run (main_pre_head repo) (\<lambda>pre_head repo.
     then_run (main_stash be \<lparr>sig_name = ''comfyui'', sig_email = ''comfy@ui''\<rparr> repo) (\<lambda>_ repo.
     then_run (main_backup be repo) (\<lambda>_ repo. after_backup be st repo)))"
  unfolding main_update_def after_backup_def Let_def by (rule refl)

lemma mb_after_backup: "markers_between 2 4 (snd (snd (after_backup be st r)))"
  unfolding after_backup_def
  apply (rule mb_then_run [where b = 2, OF mb_fetch])
    apply (rule mb_then_run [where b = 2, OF mb_checkout])
      apply (rule mb_then_run [where b = 2])
         apply (rule mb_plain, simp add: startswith_def)
        apply (rule mb_then_run [where b = 2, OF mb_pull])
          apply (rule mb_then_run [where b = 3, OF mb_stable])
            apply (rule mb_post_head)
           apply simp_all
  done

lemma merge_frame:
  "merge be r t = Inr r1 \<Longrightarrow> refs r1 = refs r \<and> head r1 = head r"
  by (auto simp: merge_def split: sum.splits)

lemma head_set_target_keeps:
  "head_set_target r t = Inr r1 \<Longrightarrow> head r = Branch b \<Longrightarrow> n \<noteq> ''refs/heads/'' @ b \<Longrightarrow>
   map_of (refs r1) n = map_of (refs r) n"
  by (auto simp: head_set_target_def map_of_set_target split: option.splits)

lemma create_commit_keeps:
  "head r = Branch b \<Longrightarrow> n \<noteq> ''refs/heads/'' @ b \<Longrightarrow>
   map_of (refs (snd (create_commit be r ''HEAD'' a c m t ps))) n = map_of (refs r) n"
  by (simp add: create_commit_def Let_def map_of_set_target)

lemma pull_keeps:
  assumes "pull be r rn b = (res, r1, o1)" and "head r = Branch b"
    and "n \<noteq> ''refs/heads/'' @ b"
  shows "map_of (refs r1) n = map_of (refs r) n"
  using assms
  by (auto simp: pull_def Let_def map_of_set_target set_target_frame state_cleanup_def
        create_commit_keeps
      split: sum.splits option.splits exn.splits if_splits
      dest!: checkout_tree_Inr create_branch_Inr merge_frame
      dest: head_set_target_keeps)

lemma stable_keeps:
  "main_stable be st r = (res, r1, o1) \<Longrightarrow> refs r1 = refs r"
  by (auto simp: main_stable_def Let_def split: if_splits option.splits sum.splits
      dest!: checkout_Inr)

lemma post_keeps:
  "main_post_head r = (res, r1, o1) \<Longrightarrow> r1 = r"
  by (auto simp: main_post_head_def split: sum.splits)

lemma after_backup_keeps:
  assumes run: "after_backup be st r = (res, r', out)"
    and n: "n = ''refs/heads/backup_branch_'' @ x"
  shows "map_of (refs r') n = map_of (refs r) n"
proof -
  have n1: "n \<noteq> ''refs/remotes/origin/master''" "\<not> prefix ''refs/tags/'' n"
    "n \<noteq> ''refs/heads/master''" "n \<noteq> ''refs/heads/'' @ ''master''"
    by (simp_all add: n)
  from run [unfolded after_backup_def] show ?thesis
  proof (cases rule: then_run_elim)
    case (raise e)
    from fetch_keeps [OF raise(1) n1(1,2)] show ?thesis .
  next
    case f: (cont u1 r1 o1 p1)
    note k1 = fetch_keeps [OF f(1) n1(1,2)]
    from f(2) show ?thesis
    proof (cases rule: then_run_elim)
      case (raise e)
      from checkout_keeps(1) [OF raise(1) n1(3)] k1 show ?thesis by simp
    next
      case c: (cont u2 r2 o2 p2)
      note k2 = checkout_keeps(1) [OF c(1) n1(3)]
      have h2: "head r2 = Branch ''master''"
        by (rule checkout_keeps(2) [OF c(1) n1(3)]) (rule refl)
      from c(2) show ?thesis
      proof (cases rule: then_run_elim)
        case (raise e)
        then show ?thesis by simp
      next
        case l: (cont u3 r3 o3 p3)
        then have r3: "r3 = r2" by simp
        from l(2) show ?thesis
        proof (cases rule: then_run_elim)
          case (raise e)
          from pull_keeps [OF raise(1) _ n1(4)] h2 r3 k1 k2 show ?thesis by simp
        next
          case p: (cont u4 r4 o4 p4)
          from pull_keeps [OF p(1) _ n1(4)] h2 r3 have k4: "map_of (refs r4) n = map_of (refs r2) n"
            by simp
          from p(2) show ?thesis
          proof (cases rule: then_run_elim)
            case (raise e)
            from stable_keeps [OF raise(1)] k1 k2 k4 show ?thesis by simp
          next
            case s: (cont u5 r5 o5 p5)
            from stable_keeps [OF s(1)] post_keeps [OF s(2)] k1 k2 k4 show ?thesis by simp
          qed
        qed
      qed
    qed
  qed
qed

lemma mb_rank:
  assumes "markers_between lo hi out" "l \<in> set out" "marker_rank l = Some k"
  shows "lo \<le> k \<and> k < hi"
proof -
  have "k \<in> set (marker_ranks out)"
    using assms(2,3) by (force simp: marker_ranks_def List.map_filter_def image_iff)
  with assms(1) show ?thesis by (simp add: markers_between_def)
qed

lemma mb_excl:
  "markers_between lo hi out \<Longrightarrow> marker_rank l = Some k \<Longrightarrow> \<not> (lo \<le> k \<and> k < hi) \<Longrightarrow>
   l \<notin> set out"
  using mb_rank by blast

lemma rank_pre: "marker_rank (''[PRE_UPDATE_HEAD] '' @ h) = Some 0"
  by (simp add: marker_rank_def startswith_def)

lemma rank_backup: "marker_rank (''[BACKUP_BRANCH] '' @ b) = Some 1"
  by (simp add: marker_rank_def startswith_def)

lemma stash_Inr:
  assumes "stash be r ident = Inr r1"
  shows "head r1 = head r"
    and "map_of (refs r1) (''refs/heads/'' @ b) = map_of (refs r) (''refs/heads/'' @ b)"
proof -
  from assms obtain t hc s where "head_peel r = Inr (t, hc)"
    and "stash_result be r ident = Inr s"
    and r1: "r1 = (set_target r ''refs/stash'' (so_oid s))
                    \<lparr>commits := commits r @ so_commits s,
                     index := \<lparr>ix_tree = c_tree hc, ix_conflicts = []\<rparr>,
                     index_file := \<lparr>ix_tree = c_tree hc, ix_conflicts = []\<rparr>,
                     workdir := c_tree hc\<rparr>"
    by (cases "head_peel r"; cases "stash_result be r ident")
       (auto simp: stash_def split: prod.splits)
  show "head r1 = head r"
    by (simp add: r1 set_target_frame)
  have "refs r1 = refs (set_target r ''refs/stash'' (so_oid s))"
    by (simp add: r1)
  then show "map_of (refs r1) (''refs/heads/'' @ b) = map_of (refs r) (''refs/heads/'' @ b)"
    by (simp add: map_of_set_target)
qed

lemma stash_head_target:
  assumes a: "stash be r ident = Inr r1"
  shows "head_target r1 = head_target r"
  by (rule head_target_keeps [OF stash_Inr(1) [OF a] stash_Inr(2) [OF a]])

lemma main_stash_head_target:
  assumes "main_stash be ident r = (Inr u, r1, o1)"
  shows "head_target r1 = head_target r"
proof -
  have c: "head_target (index_write (index_read_tree (state_cleanup r) t)) = head_target r" for t
    by (rule head_target_cong)
       (simp_all add: index_write_def index_read_tree_def state_cleanup_def)
  from assms show ?thesis
    by (auto simp: main_stash_def Let_def c stash_head_target
        split: sum.splits exn.splits prod.splits)
qed

lemma main_backup_marker:
  assumes "main_backup be r1 = (res, r2, ob)"
    and "''[BACKUP_BRANCH] '' @ b \<in> set ob"
    and "head_target r1 = Inr h"
  shows "b = ''backup_branch_'' @ today be \<and> r2 = set_target r1 (''refs/heads/'' @ b) h"
  using assms
  by (auto simp: main_backup_def Let_def head_peel_def repo_get_def
      split: sum.splits option.splits dest!: create_branch_Inr)

text \<open>
  C2. When a run, however it ends, has printed the backup marker with the name \<open>b\<close>,
  the repository was opened with a HEAD that resolved to \<open>h\<close>, the only PRE_UPDATE_HEAD
  line of the output carries \<open>h\<close>, \<open>b\<close> is the name made from the time stamp, and
  in the repository the run leaves behind the branch \<open>b\<close> points to \<open>h\<close>: the fetch,
  the checkout, the pull and the tag checkout have not moved it.
\<close>

theorem backup_branch_fixed:
  assumes run: "main be argv = (st, Some r', out)"
    and mk: "''[BACKUP_BRANCH] '' @ b \<in> set out"
  shows "\<exists>repo h. open_repository be (rstrip (argv ! 1) [CHR ''/'', CHR 0x5C]) = Inr repo
           \<and> head_target repo = Inr h
           \<and> ''[PRE_UPDATE_HEAD] '' @ h \<in> set out
           \<and> (\<forall>h'. ''[PRE_UPDATE_HEAD] '' @ h' \<in> set out \<longrightarrow> h' = h)
           \<and> b = ''backup_branch_'' @ today be
           \<and> map_of (refs r') (''refs/heads/'' @ b) = Some h"
proof -
  define path where "path = rstrip (argv ! 1) [CHR ''/'', CHR 0x5C]"
  define stb where "stb = (''--stable'' \<in> set argv)"
  from run obtain repo res where op: "open_repository be path = Inr repo"
    and up: "main_update be stb repo = (res, r', out)"
  proof -
    have ge: "\<not> length argv < 2"
      using run by (auto simp: main_def)
    show ?thesis
    proof (cases "open_repository be path")
      case (Inl e)
      with run ge show ?thesis by (simp add: main_def Let_def path_def)
    next
      case (Inr repo)
      obtain res r2 o2 where u: "main_update be stb repo = (res, r2, o2)"
        by (cases "main_update be stb repo")
      with run ge Inr have "r2 = r'" "o2 = out"
        by (cases res; simp add: main_def Let_def path_def stb_def)+
      with u Inr that show ?thesis by blast
    qed
  qed
  from up [unfolded main_update_after_backup] show ?thesis
  proof (cases rule: then_run_elim)
    case (raise e)
    then have "out = []"
      by (auto simp: main_pre_head_def split: sum.splits)
    with mk show ?thesis by simp
  next
    case p: (cont h r0 o0 q0)
    then have hd: "head_target repo = Inr h" and r0: "r0 = repo"
      and o0: "o0 = [''[PRE_UPDATE_HEAD] '' @ h]"
      by (auto simp: main_pre_head_def split: sum.splits)
    from p(2) show ?thesis
    proof (cases rule: then_run_elim)
      case (raise e)
      have "markers_between 1 1 q0"
        using mb_stash [of 1 be "\<lparr>sig_name = ''comfyui'', sig_email = ''comfy@ui''\<rparr>" r0] raise(1)
        by simp
      then have "''[BACKUP_BRANCH] '' @ b \<notin> set q0"
        by (rule mb_excl [OF _ rank_backup]) simp
      moreover have "''[BACKUP_BRANCH] '' @ b \<in> set q0"
        using mk p(3) o0 by simp
      ultimately show ?thesis by simp
    next
      case s: (cont u1 r1 o1 q1)
      have ms: "markers_between 1 1 o1"
        using mb_stash [of 1 be "\<lparr>sig_name = ''comfyui'', sig_email = ''comfy@ui''\<rparr>" r0] s(1)
        by simp
      have h1: "head_target r1 = Inr h"
        using main_stash_head_target [of be _ r0 u1 r1 o1] s(1) hd r0 by simp
      from s(2) show ?thesis
      proof (cases rule: then_run_elim)
        case (raise e)
        then show ?thesis by (simp add: main_backup_def Let_def split: sum.splits)
      next
        case k: (cont u2 r2 o2 q2)
        have mk2: "markers_between 1 2 o2"
          using mb_backup [of be r1] k(1) by simp
        have ma: "markers_between 2 4 q2"
          using mb_after_backup [of be stb r2] k(2) by simp
        have out: "out = (''[PRE_UPDATE_HEAD] '' @ h) # o1 @ o2 @ q2"
          using p(3) s(3) k(3) o0 by simp
        have no1: "''[BACKUP_BRANCH] '' @ b \<notin> set o1"
          by (rule mb_excl [OF ms rank_backup]) simp
        have no2: "''[BACKUP_BRANCH] '' @ b \<notin> set q2"
          by (rule mb_excl [OF ma rank_backup]) simp
        have "''[BACKUP_BRANCH] '' @ b \<in> set o1 \<union> set o2 \<union> set q2"
          using mk unfolding out by simp
        with no1 no2 have in2: "''[BACKUP_BRANCH] '' @ b \<in> set o2" by blast
        from main_backup_marker [OF k(1) in2 h1]
        have bn: "b = ''backup_branch_'' @ today be"
          and r2: "r2 = set_target r1 (''refs/heads/'' @ b) h" by simp_all
        have "map_of (refs r') (''refs/heads/'' @ b) = map_of (refs r2) (''refs/heads/'' @ b)"
          by (rule after_backup_keeps [OF k(2)]) (simp add: bn)
        then have fin: "map_of (refs r') (''refs/heads/'' @ b) = Some h"
          by (simp add: r2 map_of_set_target)
        have uq: "h' = h" if "''[PRE_UPDATE_HEAD] '' @ h' \<in> set out" for h'
        proof -
          have "''[PRE_UPDATE_HEAD] '' @ h' \<notin> set o1"
            by (rule mb_excl [OF ms rank_pre]) simp
          moreover have "''[PRE_UPDATE_HEAD] '' @ h' \<notin> set o2"
            by (rule mb_excl [OF mk2 rank_pre]) simp
          moreover have "''[PRE_UPDATE_HEAD] '' @ h' \<notin> set q2"
            by (rule mb_excl [OF ma rank_pre]) simp
          moreover have "''[PRE_UPDATE_HEAD] '' @ h' = ''[PRE_UPDATE_HEAD] '' @ h
              \<or> ''[PRE_UPDATE_HEAD] '' @ h' \<in> set o1 \<union> set o2 \<union> set q2"
            using that unfolding out by simp
          ultimately show ?thesis by simp
        qed
        have "''[PRE_UPDATE_HEAD] '' @ h \<in> set out"
          unfolding out by simp
        with op hd bn fin uq show ?thesis
          unfolding path_def by blast
      qed
    qed
  qed
qed

text \<open>The stable update again: the backup branch stays at the first commit.\<close>

theorem backup_branch_fixed_witness:
  "main backend_full argv_demo = (Returned, Some repo_updated, out_demo)
   \<and> ''[BACKUP_BRANCH] backup_branch_2026-11-03_12_00_00'' \<in> set out_demo
   \<and> ''[PRE_UPDATE_HEAD] a1'' \<in> set out_demo
   \<and> map_of (refs repo_updated) ''refs/heads/backup_branch_2026-11-03_12_00_00'' = Some ''a1''"
proof -
  have mk: "''[BACKUP_BRANCH] '' @ ''backup_branch_2026-11-03_12_00_00'' \<in> set out_demo"
    by (simp add: out_demo_def)
  have pr: "''[PRE_UPDATE_HEAD] '' @ ''a1'' \<in> set out_demo"
    by (simp add: out_demo_def)
  from backup_branch_fixed [OF main_demo_run mk] obtain h where
    uq: "\<forall>h'. ''[PRE_UPDATE_HEAD] '' @ h' \<in> set out_demo \<longrightarrow> h' = h"
    and m: "map_of (refs repo_updated) (''refs/heads/'' @ ''backup_branch_2026-11-03_12_00_00'') = Some h"
    by blast
  from uq pr have "h = ''a1''" by blast
  with m mk pr main_demo_run show ?thesis by simp
qed

end
